theory Spec2Isabelle
  imports Complex_Main
begin

section \<open>Audio filter design and application: data model\<close>

text \<open>
  The repository designs FIR kernels and IIR second-order-section cascades and applies
  them to sample buffers. Every quantity the Python code holds in a float is a
  \<^typ>\<open>real\<close> here: the development is about the exact arithmetic of the formulas,
  not about rounding, overflow or underflow.

  Python exceptions are values. \<open>ZeroDivisionError\<close> is raised by \<open>/\<close> on a zero
  divisor, \<open>ValueError\<close> (with its message) by \<open>math.sqrt\<close> on a negative argument
  and by the numpy and scipy routines on arguments they reject. \<open>InvalidParameter\<close> is
  the design-time validation error the specification names; no function of the
  repository raises it.
\<close>

datatype error = InvalidParameter | ZeroDivisionError | ValueError string

type_synonym 'a result = "error + 'a"

text \<open>
  One second-order section is a row \<open>(b0, b1, b2, a0, a1, a2)\<close> of the \<open>(n, 6)\<close>
  array the designers return; a cascade is the list of rows.
\<close>

type_synonym biquad = "real \<times> real \<times> real \<times> real \<times> real \<times> real"

type_synonym sos = "biquad list"

section \<open>Analytic biquad designers (design\_iir.py)\<close>

text \<open>\<open>math.sqrt\<close>: a negative argument raises \<open>ValueError: math domain error\<close>.\<close>

definition math_sqrt :: "real \<Rightarrow> real result" where
  "math_sqrt x = (if x < 0 then Inl (ValueError ''math domain error'') else Inr (sqrt x))"

text \<open>
  \<open>parametric_eq\<close>, statement by statement. \<open>10 ** (gain_db / 40)\<close> is a positive
  real, so \<open>alpha / A\<close> cannot divide by zero; the divisions by \<open>fs\<close>,
  \<open>2 * q_factor\<close> and \<open>a0\<close> can, and raise \<open>ZeroDivisionError\<close>.
\<close>

definition parametric_eq :: "real \<Rightarrow> real \<Rightarrow> real \<Rightarrow> real \<Rightarrow> sos result" where
  "parametric_eq center_freq gain_db q_factor fs =
     (let A = 10 powr (gain_db / 40) in
      if fs = 0 then Inl ZeroDivisionError else
      let w0 = 2 * pi * center_freq / fs in
      if 2 * q_factor = 0 then Inl ZeroDivisionError else
      let alpha = sin w0 / (2 * q_factor);
          b0 = 1 + alpha * A;
          b1 = - 2 * cos w0;
          b2 = 1 - alpha * A;
          a0 = 1 + alpha / A;
          a1 = - 2 * cos w0;
          a2 = 1 - alpha / A
      in if a0 = 0 then Inl ZeroDivisionError
         else Inr [(b0 / a0, b1 / a0, b2 / a0, 1, a1 / a0, a2 / a0)])"

text \<open>
  \<open>shelving_lowshelf\<close>. In the line computing \<open>alpha\<close> Python evaluates
  \<open>1/q_factor\<close> (which may raise \<open>ZeroDivisionError\<close>) before it calls
  \<open>math.sqrt\<close> (which may raise the domain error). \<open>math.sqrt(A)\<close> never fails,
  since \<open>A\<close> is positive.
\<close>

definition shelving_lowshelf :: "real \<Rightarrow> real \<Rightarrow> real \<Rightarrow> real \<Rightarrow> sos result" where
  "shelving_lowshelf cutoff gain_db fs q_factor =
     (let A = 10 powr (gain_db / 40) in
      if fs = 0 then Inl ZeroDivisionError else
      let w0 = 2 * pi * cutoff / fs in
      if q_factor = 0 then Inl ZeroDivisionError else
      case math_sqrt ((A + 1 / A) * (1 / q_factor - 1) + 2) of
        Inl e \<Rightarrow> Inl e
      | Inr r \<Rightarrow>
          let alpha = sin w0 / 2 * r;
              b0 = A * ((A + 1) - (A - 1) * cos w0 + 2 * sqrt A * alpha);
              b1 = 2 * A * ((A - 1) - (A + 1) * cos w0);
              b2 = A * ((A + 1) - (A - 1) * cos w0 - 2 * sqrt A * alpha);
              a0 = (A + 1) + (A - 1) * cos w0 + 2 * sqrt A * alpha;
              a1 = - 2 * ((A - 1) + (A + 1) * cos w0);
              a2 = (A + 1) + (A - 1) * cos w0 - 2 * sqrt A * alpha
          in if a0 = 0 then Inl ZeroDivisionError
             else Inr [(b0 / a0, b1 / a0, b2 / a0, 1, a1 / a0, a2 / a0)])"

text \<open>\<open>shelving_highshelf\<close>: the same steps with the high-shelf coefficients.\<close>

definition shelving_highshelf :: "real \<Rightarrow> real \<Rightarrow> real \<Rightarrow> real \<Rightarrow> sos result" where
  "shelving_highshelf cutoff gain_db fs q_factor =
     (let A = 10 powr (gain_db / 40) in
      if fs = 0 then Inl ZeroDivisionError else
      let w0 = 2 * pi * cutoff / fs in
      if q_factor = 0 then Inl ZeroDivisionError else
      case math_sqrt ((A + 1 / A) * (1 / q_factor - 1) + 2) of
        Inl e \<Rightarrow> Inl e
      | Inr r \<Rightarrow>
          let alpha = sin w0 / 2 * r;
              b0 = A * ((A + 1) + (A - 1) * cos w0 + 2 * sqrt A * alpha);
              b1 = - 2 * A * ((A - 1) + (A + 1) * cos w0);
              b2 = A * ((A + 1) + (A - 1) * cos w0 - 2 * sqrt A * alpha);
              a0 = (A + 1) - (A - 1) * cos w0 + 2 * sqrt A * alpha;
              a1 = 2 * ((A - 1) - (A + 1) * cos w0);
              a2 = (A + 1) - (A - 1) * cos w0 - 2 * sqrt A * alpha
          in if a0 = 0 then Inl ZeroDivisionError
             else Inr [(b0 / a0, b1 / a0, b2 / a0, 1, a1 / a0, a2 / a0)])"

text \<open>
  The argument of the square root in both shelving designers, as a function of the
  two parameters it depends on.
\<close>

definition shelf_radicand :: "real \<Rightarrow> real \<Rightarrow> real" where
  "shelf_radicand gain_db q_factor =
     (let A = 10 powr (gain_db / 40) in (A + 1 / A) * (1 / q_factor - 1) + 2)"

subsection \<open>Frequency response of a cascade\<close>

text \<open>
  \<open>scipy.signal.sosfreqz\<close> at one angular frequency \<open>w\<close> (radians per sample). The
  response of a section \<open>(b0, b1, b2, a0, a1, a2)\<close> is the quotient of the two
  polynomials \<open>b0 + b1 z + b2 z\<^sup>2\<close> and \<open>a0 + a1 z + a2 z\<^sup>2\<close> at \<open>z = exp (- j w)\<close>, the
  transfer function of the difference equation of the section on the unit circle; the
  response of a cascade is the product of the responses of its sections, starting from
  1. A vanishing denominator gives no value.
\<close>

fun biquad_response :: "biquad \<Rightarrow> real \<Rightarrow> complex option" where
  "biquad_response (b0, b1, b2, a0, a1, a2) w =
     (let zm1 = cis (- w);
          num = of_real b0 + of_real b1 * zm1 + of_real b2 * zm1 ^ 2;
          den = of_real a0 + of_real a1 * zm1 + of_real a2 * zm1 ^ 2
      in if den = 0 then None else Some (num / den))"

fun sosfreqz :: "sos \<Rightarrow> real \<Rightarrow> complex option" where
  "sosfreqz [] w = Some 1"
| "sosfreqz (row # rows) w =
     (case biquad_response row w of
        None \<Rightarrow> None
      | Some rowh \<Rightarrow> (case sosfreqz rows w of None \<Rightarrow> None | Some h \<Rightarrow> Some (rowh * h)))"

section \<open>Classical IIR designers (design\_iir.py)\<close>

text \<open>
  Each designer computes the Nyquist frequency, divides the cutoff (or both band edges)
  by it and hands the result to a scipy synthesis routine, asking for second-order
  sections. The synthesis routines (\<open>butter\<close>, \<open>cheby1\<close>, \<open>cheby2\<close>,
  \<open>ellip\<close>, \<open>bessel\<close>) are library code; they are parameters of the model, and an
  exception raised inside one of them is the \<open>Inl\<close> value it returns. The only
  operation of a designer that can itself raise is the division by \<open>nyq\<close>.
\<close>

datatype btype = Lowpass | Highpass | Bandpass | Bandstop

text \<open>The critical-frequency argument: a scalar, or a two-element list of band edges.\<close>

datatype critical = Scalar real | Band real real

type_synonym synth = "int \<Rightarrow> critical \<Rightarrow> btype \<Rightarrow> sos result"

type_synonym synth1 = "int \<Rightarrow> real \<Rightarrow> critical \<Rightarrow> btype \<Rightarrow> sos result"

type_synonym synth2 = "int \<Rightarrow> real \<Rightarrow> real \<Rightarrow> critical \<Rightarrow> btype \<Rightarrow> sos result"

definition scalar_wn :: "real \<Rightarrow> real \<Rightarrow> critical result" where
  "scalar_wn cutoff fs =
     (let nyq = fs / 2 in
      if nyq = 0 then Inl ZeroDivisionError else Inr (Scalar (cutoff / nyq)))"

definition band_wn :: "real \<Rightarrow> real \<Rightarrow> real \<Rightarrow> critical result" where
  "band_wn f_low f_high fs =
     (let nyq = fs / 2 in
      if nyq = 0 then Inl ZeroDivisionError else Inr (Band (f_low / nyq) (f_high / nyq)))"

definition butter_lowpass :: "synth \<Rightarrow> real \<Rightarrow> real \<Rightarrow> int \<Rightarrow> sos result" where
  "butter_lowpass butter cutoff fs order =
     (case scalar_wn cutoff fs of Inl e \<Rightarrow> Inl e | Inr Wn \<Rightarrow> butter order Wn Lowpass)"

definition butter_highpass :: "synth \<Rightarrow> real \<Rightarrow> real \<Rightarrow> int \<Rightarrow> sos result" where
  "butter_highpass butter cutoff fs order =
     (case scalar_wn cutoff fs of Inl e \<Rightarrow> Inl e | Inr Wn \<Rightarrow> butter order Wn Highpass)"

definition butter_bandpass :: "synth \<Rightarrow> real \<Rightarrow> real \<Rightarrow> real \<Rightarrow> int \<Rightarrow> sos result" where
  "butter_bandpass butter f_low f_high fs order =
     (case band_wn f_low f_high fs of Inl e \<Rightarrow> Inl e | Inr Wn \<Rightarrow> butter order Wn Bandpass)"

definition butter_bandstop :: "synth \<Rightarrow> real \<Rightarrow> real \<Rightarrow> real \<Rightarrow> int \<Rightarrow> sos result" where
  "butter_bandstop butter f_low f_high fs order =
     (case band_wn f_low f_high fs of Inl e \<Rightarrow> Inl e | Inr Wn \<Rightarrow> butter order Wn Bandstop)"

definition butter_notch :: "synth \<Rightarrow> real \<Rightarrow> real \<Rightarrow> real \<Rightarrow> int \<Rightarrow> sos result" where
  "butter_notch butter center_freq bandwidth fs order =
     (let f_low = center_freq - bandwidth / 2;
          f_high = center_freq + bandwidth / 2
      in butter_bandstop butter f_low f_high fs order)"

definition cheby1_lowpass :: "synth1 \<Rightarrow> real \<Rightarrow> real \<Rightarrow> int \<Rightarrow> real \<Rightarrow> sos result" where
  "cheby1_lowpass cheby1 cutoff fs order ripple_db =
     (case scalar_wn cutoff fs of
        Inl e \<Rightarrow> Inl e | Inr Wn \<Rightarrow> cheby1 order ripple_db Wn Lowpass)"

definition cheby1_highpass :: "synth1 \<Rightarrow> real \<Rightarrow> real \<Rightarrow> int \<Rightarrow> real \<Rightarrow> sos result" where
  "cheby1_highpass cheby1 cutoff fs order ripple_db =
     (case scalar_wn cutoff fs of
        Inl e \<Rightarrow> Inl e | Inr Wn \<Rightarrow> cheby1 order ripple_db Wn Highpass)"

definition cheby1_bandpass ::
  "synth1 \<Rightarrow> real \<Rightarrow> real \<Rightarrow> real \<Rightarrow> int \<Rightarrow> real \<Rightarrow> sos result" where
  "cheby1_bandpass cheby1 f_low f_high fs order ripple_db =
     (case band_wn f_low f_high fs of
        Inl e \<Rightarrow> Inl e | Inr Wn \<Rightarrow> cheby1 order ripple_db Wn Bandpass)"

definition cheby1_bandstop ::
  "synth1 \<Rightarrow> real \<Rightarrow> real \<Rightarrow> real \<Rightarrow> int \<Rightarrow> real \<Rightarrow> sos result" where
  "cheby1_bandstop cheby1 f_low f_high fs order ripple_db =
     (case band_wn f_low f_high fs of
        Inl e \<Rightarrow> Inl e | Inr Wn \<Rightarrow> cheby1 order ripple_db Wn Bandstop)"

definition cheby2_lowpass :: "synth1 \<Rightarrow> real \<Rightarrow> real \<Rightarrow> int \<Rightarrow> real \<Rightarrow> sos result" where
  "cheby2_lowpass cheby2 cutoff fs order attenuation_db =
     (case scalar_wn cutoff fs of
        Inl e \<Rightarrow> Inl e | Inr Wn \<Rightarrow> cheby2 order attenuation_db Wn Lowpass)"

definition cheby2_highpass :: "synth1 \<Rightarrow> real \<Rightarrow> real \<Rightarrow> int \<Rightarrow> real \<Rightarrow> sos result" where
  "cheby2_highpass cheby2 cutoff fs order attenuation_db =
     (case scalar_wn cutoff fs of
        Inl e \<Rightarrow> Inl e | Inr Wn \<Rightarrow> cheby2 order attenuation_db Wn Highpass)"

definition cheby2_bandstop ::
  "synth1 \<Rightarrow> real \<Rightarrow> real \<Rightarrow> real \<Rightarrow> int \<Rightarrow> real \<Rightarrow> sos result" where
  "cheby2_bandstop cheby2 f_low f_high fs order attenuation_db =
     (case band_wn f_low f_high fs of
        Inl e \<Rightarrow> Inl e | Inr Wn \<Rightarrow> cheby2 order attenuation_db Wn Bandstop)"

definition ellip_lowpass ::
  "synth2 \<Rightarrow> real \<Rightarrow> real \<Rightarrow> int \<Rightarrow> real \<Rightarrow> real \<Rightarrow> sos result" where
  "ellip_lowpass ellip cutoff fs order ripple_db attenuation_db =
     (case scalar_wn cutoff fs of
        Inl e \<Rightarrow> Inl e | Inr Wn \<Rightarrow> ellip order ripple_db attenuation_db Wn Lowpass)"

definition ellip_highpass ::
  "synth2 \<Rightarrow> real \<Rightarrow> real \<Rightarrow> int \<Rightarrow> real \<Rightarrow> real \<Rightarrow> sos result" where
  "ellip_highpass ellip cutoff fs order ripple_db attenuation_db =
     (case scalar_wn cutoff fs of
        Inl e \<Rightarrow> Inl e | Inr Wn \<Rightarrow> ellip order ripple_db attenuation_db Wn Highpass)"

definition ellip_bandstop ::
  "synth2 \<Rightarrow> real \<Rightarrow> real \<Rightarrow> real \<Rightarrow> int \<Rightarrow> real \<Rightarrow> real \<Rightarrow> sos result" where
  "ellip_bandstop ellip f_low f_high fs order ripple_db attenuation_db =
     (case band_wn f_low f_high fs of
        Inl e \<Rightarrow> Inl e | Inr Wn \<Rightarrow> ellip order ripple_db attenuation_db Wn Bandstop)"

text \<open>The Bessel designers always pass \<open>norm='phase'\<close>; it is part of the parameter.\<close>

definition bessel_lowpass :: "synth \<Rightarrow> real \<Rightarrow> real \<Rightarrow> int \<Rightarrow> sos result" where
  "bessel_lowpass bessel cutoff fs order =
     (case scalar_wn cutoff fs of Inl e \<Rightarrow> Inl e | Inr Wn \<Rightarrow> bessel order Wn Lowpass)"

definition bessel_highpass :: "synth \<Rightarrow> real \<Rightarrow> real \<Rightarrow> int \<Rightarrow> sos result" where
  "bessel_highpass bessel cutoff fs order =
     (case scalar_wn cutoff fs of Inl e \<Rightarrow> Inl e | Inr Wn \<Rightarrow> bessel order Wn Highpass)"

definition bessel_bandpass :: "synth \<Rightarrow> real \<Rightarrow> real \<Rightarrow> real \<Rightarrow> int \<Rightarrow> sos result" where
  "bessel_bandpass bessel f_low f_high fs order =
     (case band_wn f_low f_high fs of Inl e \<Rightarrow> Inl e | Inr Wn \<Rightarrow> bessel order Wn Bandpass)"

text \<open>
  The one behaviour of \<open>scipy.signal.butter\<close> that the example of a cutoff above the
  Nyquist frequency needs: given a critical frequency outside \<open>(0, 1)\<close> it raises this
  \<open>ValueError\<close> from inside its synthesis code. The constant stands for the routine at
  such arguments only.
\<close>

definition butter_out_of_range :: synth where
  "butter_out_of_range N Wn bt =
     Inl (ValueError ''Digital filter critical frequencies must be 0 < Wn < 1'')"

section \<open>FIR designers (design\_fir.py)\<close>

text \<open>
  The windowed-sinc kernels come from \<open>scipy.signal.firwin\<close>, a parameter of the
  model: it takes the tap count, the cutoff (a scalar or the band edges), the \<open>beta\<close>
  of the Kaiser window, \<open>pass_zero\<close> and the sample rate.
\<close>

type_synonym firwin = "int \<Rightarrow> critical \<Rightarrow> real \<Rightarrow> bool \<Rightarrow> real \<Rightarrow> real list result"

definition lowpass :: "firwin \<Rightarrow> real \<Rightarrow> real \<Rightarrow> int \<Rightarrow> real \<Rightarrow> real list result" where
  "lowpass firwin cutoff fs numtaps beta = firwin numtaps (Scalar cutoff) beta True fs"

definition highpass :: "firwin \<Rightarrow> real \<Rightarrow> real \<Rightarrow> int \<Rightarrow> real \<Rightarrow> real list result" where
  "highpass firwin cutoff fs numtaps beta = firwin numtaps (Scalar cutoff) beta False fs"

definition bandpass ::
  "firwin \<Rightarrow> real \<Rightarrow> real \<Rightarrow> real \<Rightarrow> int \<Rightarrow> real \<Rightarrow> real list result" where
  "bandpass firwin f_low f_high fs numtaps beta =
     firwin numtaps (Band f_low f_high) beta False fs"

definition bandstop ::
  "firwin \<Rightarrow> real \<Rightarrow> real \<Rightarrow> real \<Rightarrow> int \<Rightarrow> real \<Rightarrow> real list result" where
  "bandstop firwin f_low f_high fs numtaps beta =
     firwin numtaps (Band f_low f_high) beta True fs"

definition notch ::
  "firwin \<Rightarrow> real \<Rightarrow> real \<Rightarrow> real \<Rightarrow> int \<Rightarrow> real \<Rightarrow> real list result" where
  "notch firwin center_freq bandwidth fs numtaps beta =
     (let f_low = center_freq - bandwidth / 2;
          f_high = center_freq + bandwidth / 2
      in bandstop firwin f_low f_high fs numtaps beta)"

subsection \<open>Tap-count estimate\<close>

text \<open>
  \<open>scipy.signal.kaiser_beta\<close> and \<open>scipy.signal.kaiserord\<close>, which
  \<open>adaptive_numtaps\<close> calls. \<open>kaiserord\<close> rejects an attenuation below 8 dB with a
  \<open>ValueError\<close>, and its formula divides by \<open>pi * width\<close>.
\<close>

definition kaiser_beta :: "real \<Rightarrow> real" where
  "kaiser_beta a =
     (if a > 50 then 0.1102 * (a - 8.7)
      else if a > 21 then 0.5842 * (a - 21) powr 0.4 + 0.07886 * (a - 21)
      else 0)"

definition kaiserord :: "real \<Rightarrow> real \<Rightarrow> (int \<times> real) result" where
  "kaiserord ripple width =
     (let A = \<bar>ripple\<bar> in
      if A < 8 then Inl (ValueError ''Requested maximum ripple attenuation is too small for the Kaiser formula.'')
      else let beta = kaiser_beta A in
           if pi * width = 0 then Inl ZeroDivisionError
           else let numtaps = (A - 7.95) / 2.285 / (pi * width) + 1
                in Inr (\<lceil>numtaps\<rceil>, beta))"

text \<open>
  \<open>adaptive_numtaps\<close>: the width handed to \<open>kaiserord\<close> is
  \<open>transition_width / (0.5 * fs)\<close>; an even estimate is incremented. The function has
  no check of its own on \<open>transition_width\<close>.
\<close>

definition adaptive_numtaps :: "real \<Rightarrow> real \<Rightarrow> real \<Rightarrow> int result" where
  "adaptive_numtaps transition_width fs attenuation_db =
     (if 0.5 * fs = 0 then Inl ZeroDivisionError
      else case kaiserord attenuation_db (transition_width / (0.5 * fs)) of
             Inl e \<Rightarrow> Inl e
           | Inr (numtaps, beta) \<Rightarrow>
               Inr (if numtaps mod 2 = 0 then numtaps + 1 else numtaps))"

section \<open>Application engine (main.py)\<close>

subsection \<open>FIR: \<open>np.convolve(signal, taps, mode="same")\<close>\<close>

text \<open>
  \<open>conv_at a v k\<close> is entry \<open>k\<close> of the full linear convolution of \<open>a\<close> and \<open>v\<close>.
  \<open>np.convolve\<close> swaps its arguments when the second is the longer one, rejects an
  empty array, and in mode \<open>same\<close> returns as many entries as the longer argument
  has, starting at entry \<open>(n2 - 1) div 2\<close> of the full convolution, where \<open>n2\<close> is the
  length of the shorter argument.
\<close>

definition conv_at :: "real list \<Rightarrow> real list \<Rightarrow> nat \<Rightarrow> real" where
  "conv_at a v k =
     (\<Sum>j\<leftarrow>[0..<length v]. if j \<le> k \<and> k - j < length a then a ! (k - j) * v ! j else 0)"

definition np_convolve_same :: "real list \<Rightarrow> real list \<Rightarrow> real list result" where
  "np_convolve_same a0 v0 =
     (let (a, v) = (if length v0 > length a0 then (v0, a0) else (a0, v0)) in
      if length a = 0 then Inl (ValueError ''a cannot be empty'')
      else if length v = 0 then Inl (ValueError ''v cannot be empty'')
      else Inr (map (\<lambda>i. conv_at a v (i + (length v - 1) div 2)) [0..<length a]))"

definition apply_fir :: "real list \<Rightarrow> real list \<Rightarrow> real list result" where
  "apply_fir signal taps = np_convolve_same signal taps"

subsection \<open>IIR: \<open>sosfilt(sos, signal)\<close>\<close>

text \<open>
  \<open>scipy.signal.sosfilt\<close>, in the order of its statements. It rejects a cascade with a
  section whose \<open>a0\<close> is not 1. It reshapes the signal to \<open>(-1, n)\<close> and the zero state
  it has allocated to \<open>(-1, n_sections, 2)\<close>: numpy cannot infer the \<open>-1\<close> for an array
  without elements, so an empty signal, and then a cascade without sections, raise a
  \<open>ValueError\<close> (the message is numpy's). Otherwise it runs, for every sample, through
  the sections in order (transposed direct form II), the state \<open>(z0, z1)\<close> of every
  section starting at zero and the output of one section being the input of the next.
\<close>

fun biquad_step :: "biquad \<Rightarrow> real \<Rightarrow> real \<times> real \<Rightarrow> real \<times> (real \<times> real)" where
  "biquad_step (b0, b1, b2, a0, a1, a2) x_cur (z0, z1) =
     (let x_new = b0 * x_cur + z0
      in (x_new, (b1 * x_cur - a1 * x_new + z1, b2 * x_cur - a2 * x_new)))"

text \<open>
  One sample through all sections. The state array has one row per section, so the
  state list is never shorter than the cascade; the last equation only makes the
  function total.
\<close>

fun cascade_step :: "sos \<Rightarrow> (real \<times> real) list \<Rightarrow> real \<Rightarrow> real \<times> (real \<times> real) list" where
  "cascade_step [] zi x_cur = (x_cur, [])"
| "cascade_step (s # ss) (z # zs) x_cur =
     (let (x_new, z') = biquad_step s x_cur z;
          (y, zs') = cascade_step ss zs x_new
      in (y, z' # zs'))"
| "cascade_step (s # ss) [] x_cur = (x_cur, [])"

fun sosfilt_loop :: "sos \<Rightarrow> (real \<times> real) list \<Rightarrow> real list \<Rightarrow> real list" where
  "sosfilt_loop sos zi [] = []"
| "sosfilt_loop sos zi (x # xs) =
     (let (y, zi') = cascade_step sos zi x in y # sosfilt_loop sos zi' xs)"

definition sosfilt :: "sos \<Rightarrow> real list \<Rightarrow> real list result" where
  "sosfilt sos x =
     (if \<not> list_all (\<lambda>(b0, b1, b2, a0, a1, a2). a0 = 1) sos
      then Inl (ValueError ''sos[:, 3] should be all ones'')
      else if length x = 0
      then Inl (ValueError ''cannot reshape array of size 0 into shape (0,)'')
      else if length sos = 0
      then Inl (ValueError ''cannot reshape array of size 0 into shape (0,2)'')
      else Inr (sosfilt_loop sos (replicate (length sos) (0, 0)) x))"

definition apply_iir :: "real list \<Rightarrow> sos \<Rightarrow> real list result" where
  "apply_iir signal sos = sosfilt sos signal"

text \<open>
  A cascade is valid when it has at least one section and every stored \<open>a0\<close> is 1, as
  the designers produce it.
\<close>

definition valid_sos :: "sos \<Rightarrow> bool" where
  "valid_sos sos = (sos \<noteq> [] \<and> list_all (\<lambda>(b0, b1, b2, a0, a1, a2). a0 = 1) sos)"

text \<open>The linear combination \<open>a * x + b * y\<close> of two signals, sample by sample.\<close>

definition lincomb :: "real \<Rightarrow> real list \<Rightarrow> real \<Rightarrow> real list \<Rightarrow> real list" where
  "lincomb a x b y = map2 (\<lambda>u v. a * u + b * v) x y"

text \<open>The same combination of two per-section state arrays.\<close>

definition lin_state ::
  "real \<Rightarrow> (real \<times> real) list \<Rightarrow> real \<Rightarrow> (real \<times> real) list \<Rightarrow> (real \<times> real) list" where
  "lin_state a zx b zy = map2 (\<lambda>(p, q) (r, t). (a * p + b * r, a * q + b * t)) zx zy"

text \<open>
  The expression \<open>a * apply_iir(x, sos) + b * apply_iir(y, sos)\<close> on outcomes: Python
  evaluates the call on \<open>x\<close> first, then the call on \<open>y\<close>, and the first exception
  raised is the outcome of the expression.
\<close>

definition lincomb_results ::
  "real \<Rightarrow> real list result \<Rightarrow> real \<Rightarrow> real list result \<Rightarrow> real list result" where
  "lincomb_results a rx b ry =
     (case rx of
        Inl e \<Rightarrow> Inl e
      | Inr fx \<Rightarrow> (case ry of Inl e \<Rightarrow> Inl e | Inr fy \<Rightarrow> Inr (lincomb a fx b fy)))"

section \<open>The peaking equaliser\<close>

text \<open>
  C1. \<open>parametric_eq\<close> returns exactly one section, whose stored coefficients are
  \<open>(b0/a0, b1/a0, b2/a0, 1, a1/a0, a2/a0)\<close> for the cookbook values of \<open>A\<close>, \<open>w0\<close>,
  \<open>alpha\<close> and the six raw coefficients; the stored \<open>a0\<close> is exactly 1. The formulas
  divide by \<open>fs\<close>, \<open>q_factor\<close> and \<open>a0\<close>: the function returns that section when the
  three are non-zero, and returns nothing else.
\<close>

theorem parametric_eq_coefficients:
  fixes center_freq gain_db q_factor fs :: real
  defines "A \<equiv> 10 powr (gain_db / 40)"
  defines "w0 \<equiv> 2 * pi * center_freq / fs"
  defines "alpha \<equiv> sin w0 / (2 * q_factor)"
  defines "b0 \<equiv> 1 + alpha * A" and "b1 \<equiv> - 2 * cos w0" and "b2 \<equiv> 1 - alpha * A"
  defines "a0 \<equiv> 1 + alpha / A" and "a1 \<equiv> - 2 * cos w0" and "a2 \<equiv> 1 - alpha / A"
  shows "(fs \<noteq> 0 \<and> q_factor \<noteq> 0 \<and> a0 \<noteq> 0 \<longrightarrow>
           parametric_eq center_freq gain_db q_factor fs
             = Inr [(b0 / a0, b1 / a0, b2 / a0, 1, a1 / a0, a2 / a0)])
       \<and> (\<forall>s. parametric_eq center_freq gain_db q_factor fs = Inr s \<longrightarrow>
             s = [(b0 / a0, b1 / a0, b2 / a0, 1, a1 / a0, a2 / a0)]
             \<and> fs \<noteq> 0 \<and> q_factor \<noteq> 0 \<and> a0 \<noteq> 0)"
  unfolding parametric_eq_def A_def w0_def alpha_def b0_def b1_def b2_def a0_def a1_def a2_def
    Let_def
  by (auto split: if_splits)


theorem parametric_eq_coefficients_witness:
  "(4::real) \<noteq> 0 \<and> (1::real) \<noteq> 0
   \<and> parametric_eq 1 40 1 4 = Inr [(40 / 7, 0, - 80 / 21, 1, 0, 19 / 21)]"
proof -
  have h: "(4::real) \<noteq> 0 \<and> (1::real) \<noteq> 0
      \<and> 1 + sin (2 * pi * 1 / 4) / (2 * 1) / 10 powr (40 / 40) \<noteq> (0::real)"
    by simp
  from parametric_eq_coefficients[where fs=4 and center_freq=1 and q_factor=1 and gain_db=40,
      THEN conjunct1, rule_format, OF h]
  show ?thesis by simp
qed

lemma den_nonzero:
  fixes a1 a2 t :: real
  assumes "\<bar>a1\<bar> < 1 + a2" "a2 < 1"
  shows "1 + of_real a1 * cis t + of_real a2 * (cis t)^2 \<noteq> (0::complex)"
proof
  assume eq: "1 + of_real a1 * cis t + of_real a2 * (cis t)^2 = (0::complex)"
  have p2: "(cis t)^2 = cis (2 * t)" by (simp add: DeMoivre)
  from eq have re: "1 + a1 * cos t + a2 * cos (2 * t) = 0"
    and im: "a1 * sin t + a2 * sin (2 * t) = 0"
    unfolding p2 by (simp_all add: complex_eq_iff)
  have c2: "cos (2 * t) = 2 * (cos t)^2 - 1" by (simp add: cos_double_cos)
  have s2: "sin (2 * t) = 2 * sin t * cos t" by (simp add: sin_double)
  from im s2 have "sin t * (a1 + 2 * a2 * cos t) = 0" by (simp add: algebra_simps)
  then consider "sin t = 0" | "a1 = - 2 * a2 * cos t" by auto
  then show False
  proof cases
    case 1
    then have "(cos t)^2 = 1" using sin_cos_squared_add[of t] by simp
    then have "cos t = 1 \<or> cos t = -1" by (simp add: power2_eq_1_iff)
    then show False using re c2 assms \<open>(cos t)^2 = 1\<close> by auto
  next
    case 2
    from re c2 have "1 + a1 * cos t + a2 * (2 * (cos t)^2 - 1) = 0" by simp
    then have "1 - a2 = 0" unfolding 2 by (simp add: algebra_simps power2_eq_square)
    with assms show False by simp
  qed
qed

lemma peaking_stable:
  fixes w0 alpha :: real
  assumes "0 < w0" "w0 < pi" "0 < alpha"
  shows "\<bar>- 2 * cos w0 / (1 + alpha)\<bar> < 1 + (1 - alpha) / (1 + alpha)" "(1 - alpha) / (1 + alpha) < 1"
proof -
  have c1: "cos w0 < 1" using assms cos_monotone_0_pi[of 0 w0] by simp
  have c2: "- 1 < cos w0" using assms cos_monotone_0_pi[of w0 pi] by simp
  have "\<bar>cos w0\<bar> < 1" using c1 c2 by simp
  then have "\<bar>- 2 * cos w0\<bar> < 2" by simp
  then have "\<bar>- 2 * cos w0\<bar> / (1 + alpha) < 2 / (1 + alpha)"
    using assms by (simp add: divide_strict_right_mono)
  moreover have "1 + (1 - alpha) / (1 + alpha) = 2 / (1 + alpha)"
    using assms by (simp add: field_simps)
  ultimately show "\<bar>- 2 * cos w0 / (1 + alpha)\<bar> < 1 + (1 - alpha) / (1 + alpha)"
    using assms by simp
  show "(1 - alpha) / (1 + alpha) < 1" using assms by (simp add: field_simps)
qed

text \<open>
  C4. For a centre frequency strictly between 0 and \<open>fs/2\<close> and a positive \<open>q_factor\<close>,
  \<open>parametric_eq\<close> with \<open>gain_db = 0\<close> returns one section whose numerator coefficients
  equal its denominator coefficients \<open>(1, a1, a2)\<close>, and the response of that section
  is 1 at every frequency.
\<close>

theorem parametric_eq_zero_gain_identity:
  assumes "0 < center_freq" "center_freq < fs / 2" "0 < q_factor"
  shows "\<exists>b0 b1 b2 a1 a2.
           parametric_eq center_freq 0 q_factor fs = Inr [(b0, b1, b2, 1, a1, a2)]
           \<and> b0 = 1 \<and> b1 = a1 \<and> b2 = a2
           \<and> (\<forall>w. sosfreqz [(b0, b1, b2, 1, a1, a2)] w = Some 1)"
proof -
  define w0 where "w0 = 2 * pi * center_freq / fs"
  define alpha where "alpha = sin w0 / (2 * q_factor)"
  have fs: "0 < fs" using assms by simp
  have w0: "0 < w0" "w0 < pi"
    using assms fs by (simp_all add: w0_def field_simps)
  have alpha: "0 < alpha" using sin_gt_zero[OF w0] assms by (simp add: alpha_def)
  let ?c1 = "- 2 * cos w0 / (1 + alpha)" and ?c2 = "(1 - alpha) / (1 + alpha)"
  have eq: "parametric_eq center_freq 0 q_factor fs = Inr [(1, ?c1, ?c2, 1, ?c1, ?c2)]"
    using fs assms alpha
    by (simp add: parametric_eq_def Let_def w0_def[symmetric] alpha_def[symmetric])
  have "sosfreqz [(1, ?c1, ?c2, 1, ?c1, ?c2)] w = Some 1" for w
    using den_nonzero[OF peaking_stable[OF w0 alpha], of "- w"] by (simp add: Let_def)
  with eq show ?thesis
    by (intro exI[of _ 1] exI[of _ "?c1"] exI[of _ "?c2"] conjI) simp_all
qed

theorem parametric_eq_zero_gain_identity_witness:
  "(0::real) < 1000 \<and> (1000::real) < 44100 / 2 \<and> (0::real) < 2
   \<and> (\<exists>b0 b1 b2 a1 a2.
         parametric_eq 1000 0 2 44100 = Inr [(b0, b1, b2, 1, a1, a2)]
         \<and> b0 = 1 \<and> b1 = a1 \<and> b2 = a2
         \<and> (\<forall>w. sosfreqz [(b0, b1, b2, 1, a1, a2)] w = Some 1))"
proof -
  have h: "(0::real) < 1000" "(1000::real) < 44100 / 2" "(0::real) < 2" by simp_all
  show ?thesis using parametric_eq_zero_gain_identity[OF h] h by blast
qed

section \<open>The shelving designers and the domain of the square root\<close>

lemma lowshelf_Inr_radicand:
  "shelving_lowshelf cutoff gain_db fs q_factor = Inr s \<Longrightarrow> 0 \<le> shelf_radicand gain_db q_factor"
  by (auto simp: shelving_lowshelf_def shelf_radicand_def math_sqrt_def Let_def split: if_splits sum.splits)

lemma highshelf_Inr_radicand:
  "shelving_highshelf cutoff gain_db fs q_factor = Inr s \<Longrightarrow> 0 \<le> shelf_radicand gain_db q_factor"
  by (auto simp: shelving_highshelf_def shelf_radicand_def math_sqrt_def Let_def split: if_splits sum.splits)

lemma shelf_domain_error:
  assumes "fs \<noteq> 0" "q_factor \<noteq> 0" "shelf_radicand gain_db q_factor < 0"
  shows "shelving_lowshelf cutoff gain_db fs q_factor = Inl (ValueError ''math domain error'')"
    and "shelving_highshelf cutoff gain_db fs q_factor = Inl (ValueError ''math domain error'')"
  using assms
  by (simp_all add: shelving_lowshelf_def shelving_highshelf_def shelf_radicand_def math_sqrt_def Let_def)

lemma radicand_negative_if:
  fixes A q :: real
  assumes q: "1 < q" and A: "0 < A" and big: "2 * q / (q - 1) < A + 1 / A"
  shows "(A + 1 / A) * (1 / q - 1) + 2 < 0"
proof -
  have "1 / q - 1 = - ((q - 1) / q)" using q by (simp add: field_simps)
  moreover have "2 < (A + 1 / A) * ((q - 1) / q)"
  proof -
    have "0 < (q - 1) / q" using q by simp
    from mult_strict_right_mono[OF big this]
    show ?thesis using q by simp
  qed
  ultimately show ?thesis by simp
qed

lemma radicand_large_gain:
  assumes q: "1 < q" and g: "40 * log 10 (2 * q / (q - 1)) < \<bar>gain_db\<bar>"
  shows "shelf_radicand gain_db q < 0"
proof -
  define K where "K = 2 * q / (q - 1)"
  define A where "A = 10 powr (gain_db / 40)"
  have K: "0 < K" using q by (simp add: K_def)
  have A: "0 < A" by (simp add: A_def)
  have Kp: "K = 10 powr (log 10 K)" using K by simp
  have "K < A + 1 / A"
  proof (cases "0 \<le> gain_db")
    case True
    with g have "log 10 K < gain_db / 40" by (simp add: K_def)
    then have "10 powr (log 10 K) < 10 powr (gain_db / 40)" by simp
    then have "K < A" using Kp by (simp add: A_def)
    moreover have "0 < 1 / A" using A by simp
    ultimately show ?thesis by linarith
  next
    case False
    with g have "log 10 K < - gain_db / 40" by (simp add: K_def)
    then have "10 powr (log 10 K) < 10 powr (- gain_db / 40)" by simp
    moreover have "10 powr (- gain_db / 40) = 1 / A"
      by (simp add: A_def powr_minus_divide)
    ultimately have "K < 1 / A" using Kp by simp
    with A show ?thesis by linarith
  qed
  then show ?thesis
    using radicand_negative_if[OF q A] by (simp add: shelf_radicand_def Let_def A_def K_def)
qed

lemma gain12_amplitude_lt_2: "(10::real) powr (12 / 40) < 2"
proof (rule ccontr)
  assume "\<not> (10::real) powr (12 / 40) < 2"
  then have "(2::real) \<le> 10 powr (12 / 40)" by simp
  then have "(2::real) powr 10 \<le> (10 powr (12 / 40)) powr 10"
    by (intro powr_mono2) simp_all
  then show False by (simp add: powr_powr)
qed

lemma gain12_amplitude_gt_1: "1 < (10::real) powr (12 / 40)"
  using powr_less_mono[of 0 "12/40" "10::real"] by simp

lemma gain13_amplitude_gt_2: "2 < (10::real) powr (13 / 40)"
proof (rule ccontr)
  assume "\<not> 2 < (10::real) powr (13 / 40)"
  then have "(10::real) powr (13 / 40) \<le> 2" by simp
  then have "((10::real) powr (13 / 40)) powr 40 \<le> 2 powr 40"
    by (intro powr_mono2) simp_all
  then show False by (simp add: powr_powr)
qed

lemma radicand_q5_gain13: "shelf_radicand 13 5 < 0"
proof -
  define A where "A = (10::real) powr (13 / 40)"
  have A: "2 < A" using gain13_amplitude_gt_2 by (simp add: A_def)
  have "0 < (A - 2) * (A - 1 / 2)" using A by simp
  moreover have "(A - 2) * (A - 1 / 2) = A * A - 5 / 2 * A + 1" by (simp add: field_simps)
  ultimately have "5 / 2 * A < A * A + 1" by simp
  then have "5 / 2 < A + 1 / A" using A by (simp add: field_simps)
  then have "(A + 1 / A) * (1 / 5 - 1) + 2 < 0" by simp
  then show ?thesis by (simp add: shelf_radicand_def Let_def A_def)
qed

lemma radicand_q5_gain12: "0 < shelf_radicand 12 5"
proof -
  define A where "A = (10::real) powr (12 / 40)"
  have A: "A < 2" "1 < A" using gain12_amplitude_lt_2 gain12_amplitude_gt_1 by (simp_all add: A_def)
  have "(A - 2) * (A - 1 / 2) < 0" using A by (simp add: mult_neg_pos)
  moreover have "(A - 2) * (A - 1 / 2) = A * A - 5 / 2 * A + 1" by (simp add: field_simps)
  ultimately have "A * A + 1 < 5 / 2 * A" by simp
  then have "A + 1 / A < 5 / 2" using A by (simp add: field_simps)
  then have "0 < (A + 1 / A) * (1 / 5 - 1) + 2" by simp
  then show ?thesis by (simp add: shelf_radicand_def Let_def A_def)
qed


lemma shelf_a0_pos:
  fixes A c t :: real
  assumes "0 < A" "\<bar>c\<bar> \<le> 1" "0 \<le> t"
  shows "0 < (A + 1) + (A - 1) * c + t" "0 < (A + 1) - (A - 1) * c + t"
proof -
  have "\<bar>(A - 1) * c\<bar> \<le> \<bar>A - 1\<bar>"
    using assms(2) by (simp add: abs_mult mult_left_le)
  moreover have "\<bar>A - 1\<bar> < A + 1" using assms(1) by simp
  ultimately have "\<bar>(A - 1) * c\<bar> < A + 1" by simp
  then show "0 < (A + 1) + (A - 1) * c + t" "0 < (A + 1) - (A - 1) * c + t"
    using assms(3) by linarith+
qed

lemma shelf_returns:
  assumes "fs \<noteq> 0" "q_factor \<noteq> 0" "0 \<le> shelf_radicand gain_db q_factor"
    and "0 \<le> sin (2 * pi * cutoff / fs)"
  shows "\<not> isl (shelving_lowshelf cutoff gain_db fs q_factor)"
    and "\<not> isl (shelving_highshelf cutoff gain_db fs q_factor)"
proof -
  define A where "A = 10 powr (gain_db / 40)"
  define w0 where "w0 = 2 * pi * cutoff / fs"
  define r where "r = sqrt ((A + 1 / A) * (1 / q_factor - 1) + 2)"
  define t where "t = 2 * sqrt A * (sin w0 / 2 * r)"
  have A: "0 < A" by (simp add: A_def)
  have "shelf_radicand gain_db q_factor = (A + 1 / A) * (1 / q_factor - 1) + 2"
    by (simp add: shelf_radicand_def Let_def A_def)
  with assms(3) have rad: "\<not> (A + 1 / A) * (1 / q_factor - 1) + 2 < 0"
    by linarith
  have "0 \<le> r" using rad by (simp add: r_def)
  then have t: "0 \<le> t" using assms(4) A by (simp add: t_def w0_def)
  have c: "\<bar>cos w0\<bar> \<le> 1" by (rule abs_cos_le_one)
  have t_eq: "t = sqrt A * (sin w0 * r)" by (simp add: t_def)
  note pos = shelf_a0_pos[OF A c t, unfolded t_eq]
  show "\<not> isl (shelving_lowshelf cutoff gain_db fs q_factor)"
    using assms(1,2) rad pos(1)
    by (simp add: shelving_lowshelf_def math_sqrt_def Let_def A_def[symmetric] w0_def[symmetric]
        r_def[symmetric])
  show "\<not> isl (shelving_highshelf cutoff gain_db fs q_factor)"
    using assms(1,2) rad pos(2)
    by (simp add: shelving_highshelf_def math_sqrt_def Let_def A_def[symmetric] w0_def[symmetric]
        r_def[symmetric])
qed

lemma gain20_above_threshold: "40 * log 10 (2 * 5 / (5 - 1)) < \<bar>20::real\<bar>"
proof -
  have "(5 / 2 :: real) < 10 powr (1 / 2)"
  proof (rule ccontr)
    assume "\<not> (5 / 2 :: real) < 10 powr (1 / 2)"
    then have "(10::real) powr (1 / 2) \<le> 5 / 2" by simp
    then have "((10::real) powr (1 / 2)) powr 2 \<le> (5 / 2) powr 2"
      by (intro powr_mono2) simp_all
    then show False by (simp add: powr_powr power2_eq_square)
  qed
  then have "log 10 (5 / 2 :: real) < 1 / 2"
    by (subst log_less_iff) simp_all
  then show ?thesis by simp
qed

lemma sin_w0_1000_nonneg: "0 \<le> sin (2 * pi * 1000 / 44100)"
  by (rule sin_ge_zero) (simp_all add: field_simps)

lemma shelf_unity_gain_returns: "\<not> isl (shelving_lowshelf 1000 0 44100 1)" "\<not> isl (shelving_highshelf 1000 0 44100 1)"
  using shelf_returns[of 44100 1 0 1000] sin_w0_1000_nonneg by (simp_all add: shelf_radicand_def)

text \<open>
  C9. \<open>shelving_lowshelf\<close> and \<open>shelving_highshelf\<close> return a section only when
  \<open>(A + 1/A) * (1/q_factor - 1) + 2 \<ge> 0\<close> with \<open>A = 10^(gain_db/40)\<close>. When that
  expression is negative (and \<open>fs\<close>, \<open>q_factor\<close> are non-zero) the call fails with the
  domain error of \<open>math.sqrt\<close>. For \<open>q_factor > 1\<close> the expression is negative as soon
  as \<open>|gain_db|\<close> exceeds \<open>40 * log10 (2 q_factor / (q_factor - 1))\<close>; with
  \<open>q_factor = 5\<close> it is negative at \<open>gain_db = 13\<close>.
\<close>

theorem shelving_sqrt_domain:
  "(shelving_lowshelf cutoff gain_db fs q_factor = Inr s \<longrightarrow> 0 \<le> shelf_radicand gain_db q_factor)
   \<and> (shelving_highshelf cutoff gain_db fs q_factor = Inr s \<longrightarrow> 0 \<le> shelf_radicand gain_db q_factor)
   \<and> (fs \<noteq> 0 \<and> q_factor \<noteq> 0 \<and> shelf_radicand gain_db q_factor < 0 \<longrightarrow>
        shelving_lowshelf cutoff gain_db fs q_factor = Inl (ValueError ''math domain error'')
        \<and> shelving_highshelf cutoff gain_db fs q_factor = Inl (ValueError ''math domain error''))
   \<and> (1 < q_factor \<and> 40 * log 10 (2 * q_factor / (q_factor - 1)) < \<bar>gain_db\<bar> \<longrightarrow>
        shelf_radicand gain_db q_factor < 0)
   \<and> shelf_radicand 13 5 < 0"
  using lowshelf_Inr_radicand highshelf_Inr_radicand shelf_domain_error radicand_large_gain radicand_q5_gain13
  by blast

theorem shelving_sqrt_domain_witness:
  "0 \<le> shelf_radicand 0 1 \<and> \<not> isl (shelving_lowshelf 1000 0 44100 1)
   \<and> \<not> isl (shelving_highshelf 1000 0 44100 1)
   \<and> (1::real) < 5 \<and> 40 * log 10 (2 * 5 / (5 - 1)) < \<bar>20::real\<bar>
   \<and> shelf_radicand 20 5 < 0
   \<and> shelving_lowshelf 1000 20 44100 5 = Inl (ValueError ''math domain error'')
   \<and> shelving_highshelf 1000 20 44100 5 = Inl (ValueError ''math domain error'')"
proof -
  obtain s where s: "shelving_lowshelf 1000 0 44100 1 = Inr s"
    using shelf_unity_gain_returns(1) by (cases "shelving_lowshelf 1000 0 44100 1") auto
  obtain s' where s': "shelving_highshelf 1000 0 44100 1 = Inr s'"
    using shelf_unity_gain_returns(2) by (cases "shelving_highshelf 1000 0 44100 1") auto
  have a: "0 \<le> shelf_radicand 0 1"
    using shelving_sqrt_domain[of 1000 0 44100 1 s] s by blast
  have a': "0 \<le> shelf_radicand 0 1"
    using shelving_sqrt_domain[of 1000 0 44100 1 s'] s' by blast
  have b: "shelf_radicand 20 5 < 0"
    using shelving_sqrt_domain[of 1000 20 44100 5 s] gain20_above_threshold by simp
  have c: "shelving_lowshelf 1000 20 44100 5 = Inl (ValueError ''math domain error'')
      \<and> shelving_highshelf 1000 20 44100 5 = Inl (ValueError ''math domain error'')"
    using shelving_sqrt_domain[of 1000 20 44100 5 s] b by simp
  show ?thesis using a b c shelf_unity_gain_returns gain20_above_threshold by simp
qed

text \<open>
  The instance the claim names, \<open>q_factor = 5\<close> with \<open>gain_db = 12\<close>, is on the other
  side of the threshold: \<open>A = 10^0.3 < 2\<close>, the expression is positive, and both
  designers return coefficients.
\<close>

theorem shelving_q5_gain12_counterexample: "0 < shelf_radicand 12 5
   \<and> \<not> isl (shelving_lowshelf 1000 12 44100 5) \<and> \<not> isl (shelving_highshelf 1000 12 44100 5)"
  using radicand_q5_gain12 shelf_returns[of 44100 5 12 1000] sin_w0_1000_nonneg by simp

section \<open>Applying a cascade\<close>

lemma cascade_step_zero:
  "cascade_step sos (replicate (length sos) (0, 0)) 0 = (0, replicate (length sos) (0, 0))"
  by (induction sos) (auto simp: Let_def)

lemma sosfilt_loop_zero:
  "sosfilt_loop sos (replicate (length sos) (0, 0)) (replicate n 0) = replicate n 0"
  by (induction n) (simp_all add: cascade_step_zero)

text \<open>
  C5, as the code has it. For every valid cascade and every length \<open>n\<close> of at least 1,
  \<open>apply_iir\<close> of the all-zero signal of length \<open>n\<close>, the state of every section
  starting at zero, is the all-zero signal of length \<open>n\<close>. For \<open>n = 0\<close> the call fails
  with the \<open>ValueError\<close> that \<open>sosfilt\<close> raises on an empty signal.
\<close>

theorem apply_iir_zero_signal:
  assumes "valid_sos sos"
  shows "(1 \<le> n \<longrightarrow> apply_iir (replicate n 0) sos = Inr (replicate n 0))
       \<and> (n = 0 \<longrightarrow> apply_iir (replicate n 0) sos
             = Inl (ValueError ''cannot reshape array of size 0 into shape (0,)''))"
  using assms by (simp add: apply_iir_def sosfilt_def valid_sos_def sosfilt_loop_zero)

theorem apply_iir_zero_signal_witness:
  "valid_sos [(2, 3, 4, 1, 5, 6), (1, 0, 7, 1, 1 / 2, 0)]
   \<and> (1::nat) \<le> 3
   \<and> apply_iir (replicate 3 0) [(2, 3, 4, 1, 5, 6), (1, 0, 7, 1, 1 / 2, 0)] = Inr (replicate 3 0)
   \<and> apply_iir (replicate 0 0) [(2, 3, 4, 1, 5, 6), (1, 0, 7, 1, 1 / 2, 0)]
       = Inl (ValueError ''cannot reshape array of size 0 into shape (0,)'')"
proof -
  have v: "valid_sos [(2, 3, 4, 1, 5, 6), (1, 0, 7, 1, 1 / 2, 0)]"
    by (simp add: valid_sos_def)
  from apply_iir_zero_signal[OF v, of 3] apply_iir_zero_signal[OF v, of 0] v
  show ?thesis by simp
qed

text \<open>
  The zero signal of length 0 through a valid cascade: the call raises, it does not
  return the zero signal of length 0.
\<close>

theorem apply_iir_empty_signal_counterexample:
  "valid_sos [(2, 3, 4, 1, 5, 6)]
   \<and> apply_iir (replicate 0 0) [(2, 3, 4, 1, 5, 6)]
       = Inl (ValueError ''cannot reshape array of size 0 into shape (0,)'')
   \<and> apply_iir (replicate 0 0) [(2, 3, 4, 1, 5, 6)] \<noteq> Inr (replicate 0 0)"
  by (simp add: valid_sos_def apply_iir_def sosfilt_def)

lemma biquad_step_linear:
  "biquad_step s (a * x + b * y) (a * p + b * r, a * q + b * t) =
     (a * fst (biquad_step s x (p, q)) + b * fst (biquad_step s y (r, t)),
      (a * fst (snd (biquad_step s x (p, q))) + b * fst (snd (biquad_step s y (r, t))),
       a * snd (snd (biquad_step s x (p, q))) + b * snd (snd (biquad_step s y (r, t)))))"
  by (cases s) (simp add: Let_def algebra_simps)

lemma cascade_step_length:
  "length zi = length sos \<Longrightarrow> length (snd (cascade_step sos zi x)) = length sos"
  by (induction sos zi x rule: cascade_step.induct) (auto simp: Let_def split: prod.splits)

lemma cascade_step_linear:
  "length zx = length sos \<Longrightarrow> length zy = length sos \<Longrightarrow>
   cascade_step sos (lin_state a zx b zy) (a * x + b * y) =
     (a * fst (cascade_step sos zx x) + b * fst (cascade_step sos zy y),
      lin_state a (snd (cascade_step sos zx x)) b (snd (cascade_step sos zy y)))"
proof (induction sos arbitrary: zx zy x y)
  case Nil
  then show ?case by (simp add: lin_state_def)
next
  case (Cons s ss)
  then obtain p q zx' r t zy' where zx: "zx = (p, q) # zx'" and zy: "zy = (r, t) # zy'"
    by (cases zx; cases zy) auto
  from Cons.prems have len: "length zx' = length ss" "length zy' = length ss"
    by (simp_all add: zx zy)
  show ?case
    using Cons.IH[OF len] biquad_step_linear[where s=s and a=a and b=b and x=x and y=y and p=p and q=q and r=r and t=t]
    by (simp add: zx zy lin_state_def Let_def split: prod.splits)
qed

lemma sosfilt_loop_linear:
  "length x = length y \<Longrightarrow> length zx = length sos \<Longrightarrow> length zy = length sos \<Longrightarrow>
   sosfilt_loop sos (lin_state a zx b zy) (lincomb a x b y) =
     lincomb a (sosfilt_loop sos zx x) b (sosfilt_loop sos zy y)"
proof (induction x y arbitrary: zx zy rule: list_induct2)
  case Nil
  then show ?case by (simp add: lincomb_def)
next
  case (Cons u us v vs)
  have l1: "length (snd (cascade_step sos zx u)) = length sos"
    and l2: "length (snd (cascade_step sos zy v)) = length sos"
    using Cons.prems by (simp_all add: cascade_step_length)
  show ?case
    using Cons.IH[OF l1 l2] cascade_step_linear[OF Cons.prems, where a=a and b=b and x=u and y=v]
    by (simp add: lincomb_def Let_def split: prod.splits)
qed

lemma lin_state_zero:
  "lin_state a (replicate n (0, 0)) b (replicate n (0, 0)) = replicate n (0, 0)"
  by (induction n) (simp_all add: lin_state_def)

text \<open>
  C10. \<open>apply_iir\<close> is linear: for every cascade, every two signals \<open>x\<close> and \<open>y\<close> of
  equal length and all scalars \<open>a\<close> and \<open>b\<close>, the outcome of filtering \<open>a * x + b * y\<close> is
  the outcome of \<open>a\<close> times the filtered \<open>x\<close> plus \<open>b\<close> times the filtered \<open>y\<close>. For a
  valid cascade and non-empty signals the three calls return and the equation is one
  between signals; otherwise the three calls raise the same error.
\<close>

theorem apply_iir_linear:
  assumes "length x = length y"
  shows "apply_iir (lincomb a x b y) sos
           = lincomb_results a (apply_iir x sos) b (apply_iir y sos)
       \<and> (valid_sos sos \<and> x \<noteq> [] \<longrightarrow>
            (\<exists>fx fy. apply_iir x sos = Inr fx \<and> apply_iir y sos = Inr fy
               \<and> apply_iir (lincomb a x b y) sos = Inr (lincomb a fx b fy)))
       \<and> (\<not> (valid_sos sos \<and> x \<noteq> []) \<longrightarrow>
            (\<exists>e. apply_iir x sos = Inl e \<and> apply_iir y sos = Inl e
               \<and> apply_iir (lincomb a x b y) sos = Inl e))"
proof -
  have len: "length (lincomb a x b y) = length x"
    using assms by (simp add: lincomb_def)
  have y: "(y = []) = (x = [])" using assms by auto
  have xy: "(lincomb a x b y = []) = (x = [])" using len by (metis length_0_conv)
  show ?thesis
  proof (cases "valid_sos sos \<and> x \<noteq> []")
    case True
    have z: "length (replicate (length sos) (0::real, 0::real)) = length sos" by simp
    from sosfilt_loop_linear[OF assms z z, where a=a and b=b]
    show ?thesis using True y xy
      by (simp add: apply_iir_def sosfilt_def valid_sos_def lin_state_zero lincomb_results_def)
  next
    case False
    then show ?thesis using y xy
      by (auto simp: apply_iir_def sosfilt_def valid_sos_def lincomb_results_def)
  qed
qed

theorem apply_iir_linear_witness:
  "length [1, 0, 2 :: real] = length [0, 1, 1 :: real]
   \<and> valid_sos [(2, 3, 4, 1, 5, 6), (1, 0, 7, 1, 1 / 2, 0)] \<and> [1, 0, 2 :: real] \<noteq> []
   \<and> (\<exists>fx fy. apply_iir [1, 0, 2] [(2, 3, 4, 1, 5, 6), (1, 0, 7, 1, 1 / 2, 0)] = Inr fx
          \<and> apply_iir [0, 1, 1] [(2, 3, 4, 1, 5, 6), (1, 0, 7, 1, 1 / 2, 0)] = Inr fy
          \<and> apply_iir (lincomb 3 [1, 0, 2] (- 2) [0, 1, 1])
                [(2, 3, 4, 1, 5, 6), (1, 0, 7, 1, 1 / 2, 0)] = Inr (lincomb 3 fx (- 2) fy))
   \<and> \<not> (valid_sos [(1, 0, 0, 2, 0, 0)] \<and> [1, 0, 2 :: real] \<noteq> [])
   \<and> (\<exists>e. apply_iir [1, 0, 2] [(1, 0, 0, 2, 0, 0)] = Inl e
          \<and> apply_iir [0, 1, 1] [(1, 0, 0, 2, 0, 0)] = Inl e
          \<and> apply_iir (lincomb 3 [1, 0, 2] (- 2) [0, 1, 1]) [(1, 0, 0, 2, 0, 0)] = Inl e)"
proof -
  have l: "length [1, 0, 2 :: real] = length [0, 1, 1 :: real]" by simp
  have v: "valid_sos [(2, 3, 4, 1, 5, 6), (1, 0, 7, 1, 1 / 2, 0)] \<and> [1, 0, 2 :: real] \<noteq> []"
    by (simp add: valid_sos_def)
  have n: "\<not> (valid_sos [(1, 0, 0, 2, 0, 0)] \<and> [1, 0, 2 :: real] \<noteq> [])"
    by (simp add: valid_sos_def)
  from apply_iir_linear[OF l, of 3 "- 2" "[(2, 3, 4, 1, 5, 6), (1, 0, 7, 1, 1 / 2, 0)]"] v
  have p: "\<exists>fx fy. apply_iir [1, 0, 2] [(2, 3, 4, 1, 5, 6), (1, 0, 7, 1, 1 / 2, 0)] = Inr fx
          \<and> apply_iir [0, 1, 1] [(2, 3, 4, 1, 5, 6), (1, 0, 7, 1, 1 / 2, 0)] = Inr fy
          \<and> apply_iir (lincomb 3 [1, 0, 2] (- 2) [0, 1, 1])
                [(2, 3, 4, 1, 5, 6), (1, 0, 7, 1, 1 / 2, 0)] = Inr (lincomb 3 fx (- 2) fy)"
    by blast
  from apply_iir_linear[OF l, of 3 "- 2" "[(1, 0, 0, 2, 0, 0)]"] n
  have q: "\<exists>e. apply_iir [1, 0, 2] [(1, 0, 0, 2, 0, 0)] = Inl e
          \<and> apply_iir [0, 1, 1] [(1, 0, 0, 2, 0, 0)] = Inl e
          \<and> apply_iir (lincomb 3 [1, 0, 2] (- 2) [0, 1, 1]) [(1, 0, 0, 2, 0, 0)] = Inl e"
    by blast
  show ?thesis using l v n p q by blast
qed

section \<open>Applying a kernel\<close>

lemma apply_fir_empty:
  "apply_fir [] [] = Inl (ValueError ''a cannot be empty'')"
  "taps \<noteq> [] \<Longrightarrow> apply_fir [] taps = Inl (ValueError ''v cannot be empty'')"
  "signal \<noteq> [] \<Longrightarrow> apply_fir signal [] = Inl (ValueError ''v cannot be empty'')"
  by (auto simp: apply_fir_def np_convolve_same_def Let_def)

text \<open>
  C3, as the code has it. For a non-empty signal and a non-empty kernel \<open>apply_fir\<close>
  returns as many samples as the longer of the two has. When the kernel is no longer
  than the signal, that is the length of the signal, and output sample \<open>i\<close> is entry
  \<open>i + (length taps - 1) div 2\<close> of the full linear convolution: the centred part.
\<close>

theorem apply_fir_same_length:
  assumes "signal \<noteq> []" "taps \<noteq> []"
  shows "\<exists>out. apply_fir signal taps = Inr out
           \<and> length out = max (length signal) (length taps)
           \<and> (length taps \<le> length signal \<longrightarrow>
                length out = length signal
                \<and> (\<forall>i<length signal.
                      out ! i = conv_at signal taps (i + (length taps - 1) div 2)))"
  using assms by (auto simp: apply_fir_def np_convolve_same_def Let_def)

theorem apply_fir_same_length_witness:
  "[1, 2, 3 :: real] \<noteq> [] \<and> [0, 1, 1 / 2 :: real] \<noteq> []
   \<and> length [0, 1, 1 / 2 :: real] \<le> length [1, 2, 3 :: real]
   \<and> (\<exists>out. apply_fir [1, 2, 3] [0, 1, 1 / 2] = Inr out
          \<and> length out = max (length [1, 2, 3 :: real]) (length [0, 1, 1 / 2 :: real])
          \<and> length out = length [1, 2, 3 :: real]
          \<and> (\<forall>i<length [1, 2, 3 :: real].
                out ! i = conv_at [1, 2, 3] [0, 1, 1 / 2] (i + (length [0, 1, 1 / 2 :: real] - 1) div 2)))"
proof -
  have h: "[1, 2, 3 :: real] \<noteq> []" "[0, 1, 1 / 2 :: real] \<noteq> []" by simp_all
  have l: "length [0, 1, 1 / 2 :: real] \<le> length [1, 2, 3 :: real]" by simp
  from apply_fir_same_length[OF h] l h show ?thesis by blast
qed

text \<open>
  A kernel of five taps applied to a signal of three samples gives five samples, not
  three: the claim as stated, for every signal and every kernel, fails.
\<close>

theorem apply_fir_short_signal_counterexample:
  "apply_fir [1, 2, 3] [1, 1, 1, 1, 1] = Inr [3, 6, 6, 6, 5]
   \<and> length [3, 6, 6, 6, 5 :: real] \<noteq> length [1, 2, 3 :: real]"
  by (simp add: apply_fir_def np_convolve_same_def conv_at_def Let_def upt_rec nth_Cons')

section \<open>The tap-count estimate\<close>

lemma kaiser_estimate_2: "\<lceil>(1252 / 100 - 7.95) / 2.285 / (pi * 1) + 1 :: real\<rceil> = 2"
proof -
  have "(1252 / 100 - 7.95) / 2.285 = (2::real)" by simp
  then have e: "(1252 / 100 - 7.95) / 2.285 / (pi * 1) + 1 = 2 / pi + 1" by simp
  have "1 < 2 / pi + 1" by simp
  moreover have "2 / pi + 1 \<le> 2" using pi_ge_two by (simp add: field_simps)
  ultimately show ?thesis unfolding e by (simp add: ceiling_eq_iff)
qed

lemma adaptive_numtaps_example: "adaptive_numtaps 1 2 (1252 / 100) = Inr 3"
  using kaiser_estimate_2 by (simp add: adaptive_numtaps_def kaiserord_def Let_def)

text \<open>
  C7. Whenever \<open>adaptive_numtaps\<close> returns, the result is odd: it is the estimate of
  \<open>kaiserord\<close>, made one larger when that estimate is even.
\<close>

theorem adaptive_numtaps_odd:
  assumes "adaptive_numtaps transition_width fs attenuation_db = Inr n"
  shows "odd n \<and> (\<exists>m beta. kaiserord attenuation_db (transition_width / (0.5 * fs)) = Inr (m, beta)
                    \<and> n = (if even m then m + 1 else m))"
  using assms
  by (auto simp: adaptive_numtaps_def split: if_splits sum.splits prod.splits)

theorem adaptive_numtaps_odd_witness:
  "adaptive_numtaps 1 2 (1252 / 100) = Inr 3 \<and> odd (3::int)
   \<and> (\<exists>m beta. kaiserord (1252 / 100) (1 / (0.5 * 2)) = Inr (m, beta) \<and> (3::int) = (if even m then m + 1 else m))"
  using adaptive_numtaps_odd[OF adaptive_numtaps_example] adaptive_numtaps_example by simp

lemma kaiser_negative_width:
  fixes A width :: real
  assumes "8 \<le> A" "width < 0"
  shows "\<lceil>(A - 7.95) / 2.285 / (pi * width) + 1\<rceil> \<le> 1"
proof -
  have "0 < (A - 7.95) / 2.285" using assms by simp
  moreover have "pi * width < 0" using assms by (simp add: mult_pos_neg)
  ultimately have "(A - 7.95) / 2.285 / (pi * width) < 0"
    by (rule divide_pos_neg)
  then have "(A - 7.95) / 2.285 / (pi * width) + 1 \<le> 1" by simp
  then show ?thesis by (simp add: ceiling_le_iff)
qed

lemma kaiser_estimate_1: "\<lceil>(10235 / 1000 - 7.95) / 2.285 / (pi * (- 1)) + 1 :: real\<rceil> = 1"
proof -
  have "(10235 / 1000 - 7.95) / 2.285 = (1::real)" by simp
  then have e: "(10235 / 1000 - 7.95) / 2.285 / (pi * (- 1)) + 1 = 1 - 1 / pi" by simp
  have "1 / pi < 1" using pi_ge_two by simp
  then have "0 < 1 - 1 / pi" by simp
  moreover have "1 - 1 / pi \<le> 1" by simp
  ultimately show ?thesis unfolding e by (simp add: ceiling_eq_iff)
qed

text \<open>
  C8, as the code has it. \<open>adaptive_numtaps\<close> does not check \<open>transition_width\<close>. With
  a positive sample rate and an attenuation of at least 8 dB, a zero width fails with
  the \<open>ZeroDivisionError\<close> of the division inside \<open>kaiserord\<close>, a negative width
  returns an odd integer not above 1, and in neither case is the outcome an
  \<open>InvalidParameter\<close> error.
\<close>

theorem adaptive_numtaps_no_validation:
  assumes "transition_width \<le> 0" "0 < fs" "8 \<le> \<bar>attenuation_db\<bar>"
  shows "adaptive_numtaps transition_width fs attenuation_db \<noteq> Inl InvalidParameter
       \<and> (transition_width = 0 \<longrightarrow>
             adaptive_numtaps transition_width fs attenuation_db = Inl ZeroDivisionError)
       \<and> (transition_width < 0 \<longrightarrow>
             (\<exists>n. adaptive_numtaps transition_width fs attenuation_db = Inr n \<and> odd n \<and> n \<le> 1))"
proof (cases "transition_width = 0")
  case True
  then show ?thesis using assms by (simp add: adaptive_numtaps_def kaiserord_def Let_def)
next
  case False
  with assms have neg: "transition_width < 0" by simp
  define width where "width = transition_width / (0.5 * fs)"
  have w: "width < 0" using neg assms(2) by (simp add: width_def divide_neg_pos)
  define m where "m = \<lceil>(\<bar>attenuation_db\<bar> - 7.95) / 2.285 / (pi * width) + 1\<rceil>"
  have m: "m \<le> 1" unfolding m_def by (rule kaiser_negative_width[OF assms(3) w])
  have k: "kaiserord attenuation_db width = Inr (m, kaiser_beta \<bar>attenuation_db\<bar>)"
    using assms(3) w by (simp add: kaiserord_def Let_def m_def)
  have r: "adaptive_numtaps transition_width fs attenuation_db
             = Inr (if m mod 2 = 0 then m + 1 else m)"
    using assms(2) k by (simp add: adaptive_numtaps_def width_def)
  have "odd (if m mod 2 = 0 then m + 1 else m)" by (auto simp: even_iff_mod_2_eq_zero)
  moreover have "(if m mod 2 = 0 then m + 1 else m) \<le> 1"
  proof (cases "m mod 2 = 0")
    case True
    then have "m \<noteq> 1" by auto
    with m show ?thesis using True by simp
  next
    case False
    with m show ?thesis by simp
  qed
  ultimately show ?thesis using r neg by simp
qed

theorem adaptive_numtaps_no_validation_witness:
  "(- 1 :: real) \<le> 0 \<and> (0 :: real) \<le> 0 \<and> (0::real) < 2 \<and> (8::real) \<le> \<bar>60\<bar>
   \<and> adaptive_numtaps 0 2 60 = Inl ZeroDivisionError
   \<and> (\<exists>n. adaptive_numtaps (- 1) 2 60 = Inr n \<and> odd n \<and> n \<le> 1)"
  using adaptive_numtaps_no_validation[of 0 2 60] adaptive_numtaps_no_validation[of "- 1" 2 60]
  by simp

text \<open>A negative transition width for which the function returns the tap count 1.\<close>

theorem adaptive_numtaps_negative_width_counterexample:
  "adaptive_numtaps (- 1) 2 (10235 / 1000) = Inr 1"
  using kaiser_estimate_1 by (simp add: adaptive_numtaps_def kaiserord_def Let_def)

section \<open>The designers that call a library routine\<close>

lemma scalar_wn_eq: "fs \<noteq> 0 \<Longrightarrow> scalar_wn cutoff fs = Inr (Scalar (cutoff / (fs / 2)))"
  by (simp add: scalar_wn_def)

lemma band_wn_eq:
  "fs \<noteq> 0 \<Longrightarrow> band_wn f_low f_high fs = Inr (Band (f_low / (fs / 2)) (f_high / (fs / 2)))"
  by (simp add: band_wn_def)

lemmas designer_defs =
  butter_lowpass_def butter_highpass_def butter_bandpass_def butter_bandstop_def butter_notch_def
  cheby1_lowpass_def cheby1_highpass_def cheby1_bandpass_def cheby1_bandstop_def
  cheby2_lowpass_def cheby2_highpass_def cheby2_bandstop_def
  ellip_lowpass_def ellip_highpass_def ellip_bandstop_def
  bessel_lowpass_def bessel_highpass_def bessel_bandpass_def

text \<open>
  C2, as the code has it. No IIR designer checks its arguments. For a non-zero sample
  rate the outcome of each designer is exactly the outcome of its synthesis routine on
  the order and the cutoff (or band edges) divided by \<open>fs/2\<close>: whether an out-of-range
  cutoff, a band with \<open>f_low \<ge> f_high\<close> or a non-positive order is rejected, and with
  which error, is decided inside the routine.
\<close>

theorem iir_designers_delegate:
  assumes "fs \<noteq> 0"
  shows "butter_lowpass butter cutoff fs order
           = butter order (Scalar (cutoff / (fs / 2))) Lowpass
       \<and> butter_highpass butter cutoff fs order
           = butter order (Scalar (cutoff / (fs / 2))) Highpass
       \<and> butter_bandpass butter f_low f_high fs order
           = butter order (Band (f_low / (fs / 2)) (f_high / (fs / 2))) Bandpass
       \<and> butter_bandstop butter f_low f_high fs order
           = butter order (Band (f_low / (fs / 2)) (f_high / (fs / 2))) Bandstop
       \<and> butter_notch butter center_freq bandwidth fs order
           = butter order (Band ((center_freq - bandwidth / 2) / (fs / 2))
                                ((center_freq + bandwidth / 2) / (fs / 2))) Bandstop
       \<and> cheby1_lowpass cheby1 cutoff fs order ripple_db
           = cheby1 order ripple_db (Scalar (cutoff / (fs / 2))) Lowpass
       \<and> cheby1_highpass cheby1 cutoff fs order ripple_db
           = cheby1 order ripple_db (Scalar (cutoff / (fs / 2))) Highpass
       \<and> cheby1_bandpass cheby1 f_low f_high fs order ripple_db
           = cheby1 order ripple_db (Band (f_low / (fs / 2)) (f_high / (fs / 2))) Bandpass
       \<and> cheby1_bandstop cheby1 f_low f_high fs order ripple_db
           = cheby1 order ripple_db (Band (f_low / (fs / 2)) (f_high / (fs / 2))) Bandstop
       \<and> cheby2_lowpass cheby2 cutoff fs order attenuation_db
           = cheby2 order attenuation_db (Scalar (cutoff / (fs / 2))) Lowpass
       \<and> cheby2_highpass cheby2 cutoff fs order attenuation_db
           = cheby2 order attenuation_db (Scalar (cutoff / (fs / 2))) Highpass
       \<and> cheby2_bandstop cheby2 f_low f_high fs order attenuation_db
           = cheby2 order attenuation_db (Band (f_low / (fs / 2)) (f_high / (fs / 2))) Bandstop
       \<and> ellip_lowpass ellip cutoff fs order ripple_db attenuation_db
           = ellip order ripple_db attenuation_db (Scalar (cutoff / (fs / 2))) Lowpass
       \<and> ellip_highpass ellip cutoff fs order ripple_db attenuation_db
           = ellip order ripple_db attenuation_db (Scalar (cutoff / (fs / 2))) Highpass
       \<and> ellip_bandstop ellip f_low f_high fs order ripple_db attenuation_db
           = ellip order ripple_db attenuation_db
               (Band (f_low / (fs / 2)) (f_high / (fs / 2))) Bandstop
       \<and> bessel_lowpass bessel cutoff fs order
           = bessel order (Scalar (cutoff / (fs / 2))) Lowpass
       \<and> bessel_highpass bessel cutoff fs order
           = bessel order (Scalar (cutoff / (fs / 2))) Highpass
       \<and> bessel_bandpass bessel f_low f_high fs order
           = bessel order (Band (f_low / (fs / 2)) (f_high / (fs / 2))) Bandpass"
  using assms by (simp add: designer_defs scalar_wn_eq band_wn_eq del: divide_divide_eq_left)

theorem iir_designers_delegate_witness:
  "(44100::real) \<noteq> 0
   \<and> butter_lowpass butter_out_of_range 30000 44100 4
       = butter_out_of_range 4 (Scalar (30000 / (44100 / 2))) Lowpass
   \<and> butter_bandstop butter_out_of_range 5000 1000 44100 0
       = butter_out_of_range 0 (Band (5000 / (44100 / 2)) (1000 / (44100 / 2))) Bandstop"
proof -
  have h: "(44100::real) \<noteq> 0" by simp
  from iir_designers_delegate[OF h, where butter=butter_out_of_range]
  show ?thesis using h by blast
qed

text \<open>
  A cutoff above the Nyquist frequency: \<open>butter_lowpass(30000, 44100, 4)\<close>. What the
  caller sees is the \<open>ValueError\<close> that the synthesis routine raised, not an
  \<open>InvalidParameter\<close> error raised by the designer before the routine runs.
\<close>

theorem butter_lowpass_above_nyquist_counterexample:
  "butter_lowpass butter_out_of_range 30000 44100 4
     = Inl (ValueError ''Digital filter critical frequencies must be 0 < Wn < 1'')
   \<and> butter_lowpass butter_out_of_range 30000 44100 4 \<noteq> Inl InvalidParameter"
  by (simp add: butter_lowpass_def scalar_wn_def butter_out_of_range_def)

text \<open>
  C6. The FIR \<open>notch\<close> returns exactly the kernel of \<open>bandstop\<close> for the band
  \<open>center_freq - bandwidth/2\<close> to \<open>center_freq + bandwidth/2\<close>, whatever \<open>firwin\<close>
  computes (or raises) for it.
\<close>

theorem notch_is_bandstop:
  "notch firwin center_freq bandwidth fs numtaps beta =
     bandstop firwin (center_freq - bandwidth / 2) (center_freq + bandwidth / 2) fs numtaps beta"
  by (simp add: notch_def)

end
